theory Spec2Isabelle
  imports Main "HOL-Library.Word"
begin

section \<open>Data model\<close>

text \<open>
  A Go byte slice is a list of 8-bit characters; a Go \<open>error\<close> value is a message.
  Panics of the runtime and of the standard library are separate values.
\<close>

type_synonym bytes = string

datatype error = Error string

datatype panic = DivideByZero | IndexOutOfRange | NonPositiveTickerInterval

text \<open>
  The values that \<open>encoding/json\<close> and \<open>jsonquery\<close> produce from a JSON text. Numbers
  keep their textual form (the health probe decodes with \<open>UseNumber\<close>).
\<close>

datatype json =
    JNull
  | JBool bool
  | JNumber string
  | JString string
  | JArray "json list"
  | JObject "(string \<times> json) list"

subsection \<open>The logger\<close>

text \<open>
  \<open>logger.go\<close>: every call of the logger puts one line on standard output, except
  \<open>Debugf\<close>, which prints only in debug mode. A line is kept as its level, its format
  string and its arguments.
\<close>

datatype level = DEBUG | INFO | WARN | ERROR | FATAL

datatype arg = AString string | AUint "64 word" | AError error | AValue "json option"

datatype entry = Entry level string "arg list"

definition Debugf :: "bool \<Rightarrow> string \<Rightarrow> arg list \<Rightarrow> entry list" where
  "Debugf debug format args = (if debug then [Entry DEBUG format args] else [])"

definition Infof :: "string \<Rightarrow> arg list \<Rightarrow> entry list" where
  "Infof format args = [Entry INFO format args]"

definition Warnf :: "string \<Rightarrow> arg list \<Rightarrow> entry list" where
  "Warnf format args = [Entry WARN format args]"


subsection \<open>HTTP responses\<close>

text \<open>
  A response body is a stream: reading it to the end gives its bytes, or fails part way
  with an error. \<open>io.ReadAll\<close> returns the bytes or the error.
\<close>

datatype ReadCloser = ReadCloser bytes "error option"

fun io_ReadAll :: "ReadCloser \<Rightarrow> error + bytes" where
  "io_ReadAll (ReadCloser b None) = Inr b"
| "io_ReadAll (ReadCloser b (Some e)) = Inl e"

definition io_NopCloser :: "bytes \<Rightarrow> ReadCloser" where
  "io_NopCloser b = ReadCloser b None"

text \<open>
  \<open>http.Header\<close> maps a canonical key to its values; \<open>Get\<close> gives the first value
  or the empty string, \<open>Set\<close> replaces the values by one. The keys used here
  (\<open>Content-Encoding\<close>, \<open>Content-Length\<close>, \<open>Content-Type\<close>) are in canonical form.
\<close>

type_synonym Header = "string \<rightharpoonup> string list"

definition Header_Get :: "Header \<Rightarrow> string \<Rightarrow> string" where
  "Header_Get h k = (case h k of None \<Rightarrow> [] | Some [] \<Rightarrow> [] | Some (v # vs) \<Rightarrow> v)"

definition Header_Set :: "Header \<Rightarrow> string \<Rightarrow> string \<Rightarrow> Header" where
  "Header_Set h k v = h(k \<mapsto> [v])"

record Response =
  StatusCode :: int
  Header :: Header
  Body :: ReadCloser
  ContentLength :: int

text \<open>\<open>strconv.Itoa\<close> on a length, which is never negative.\<close>

definition digit_char :: "nat \<Rightarrow> char" where
  "digit_char d = char_of (48 + d)"

fun Itoa :: "nat \<Rightarrow> string" where
  "Itoa n = (if n < 10 then [digit_char n] else Itoa (n div 10) @ [digit_char (n mod 10)])"

declare Itoa.simps [simp del]

subsection \<open>Nodes\<close>

text \<open>\<open>node.go\<close>: the upstream address and four unsigned 64-bit counters.\<close>

record ReverseProxyNode =
  URL :: string
  Calls :: "64 word"
  Calls2XX :: "64 word"
  Calls4XX :: "64 word"
  Calls5XX :: "64 word"

text \<open>\<open>buildNode\<close> leaves the counters at Go's zero value.\<close>

definition buildNode :: "string \<Rightarrow> ReverseProxyNode" where
  "buildNode target = \<lparr>URL = target, Calls = 0, Calls2XX = 0, Calls4XX = 0, Calls5XX = 0\<rparr>"

section \<open>Response inspection\<close>

text \<open>
  The decoders and the JSON parser are libraries outside the repository. What they return
  on a byte slice is a parameter of the model: \<open>gzip.NewReader\<close> reads the gzip header
  and fails on a malformed one, otherwise gives a reader whose \<open>io.ReadAll\<close> gives the
  decoded bytes or fails; \<open>flate.NewReader\<close> never fails, its reader may;
  \<open>jsonquery.Parse\<close> gives a document or fails.
\<close>

record libs =
  gzip_NewReader :: "bytes \<Rightarrow> error + ReadCloser"
  flate_NewReader :: "bytes \<Rightarrow> ReadCloser"
  jsonquery_Parse :: "bytes \<Rightarrow> error + json"

text \<open>
  Modelled from the spec: \<open>jsonquery.FindOne(doc, "//error")\<close>, a library call, which
  the spec describes as the search for a field named \<open>error\<close> anywhere in the structure of
  the document, not only at the top level. The search looks at the fields of an object
  before it goes into their values; the elements of an array have no name. Which of
  several such fields it returns matters only to the line logged.
\<close>

fun FindOne :: "string \<Rightarrow> json \<Rightarrow> json option"
  and FindOne_fields :: "string \<Rightarrow> (string \<times> json) list \<Rightarrow> json option"
  and FindOne_elems :: "string \<Rightarrow> json list \<Rightarrow> json option" where
  "FindOne k (JObject fs) =
     (case map_of fs k of Some v \<Rightarrow> Some v | None \<Rightarrow> FindOne_fields k fs)"
| "FindOne k (JArray js) = FindOne_elems k js"
| "FindOne k JNull = None"
| "FindOne k (JBool b) = None"
| "FindOne k (JNumber n) = None"
| "FindOne k (JString s) = None"
| "FindOne_fields k [] = None"
| "FindOne_fields k (f # fs) =
     (case FindOne k (snd f) of Some v \<Rightarrow> Some v | None \<Rightarrow> FindOne_fields k fs)"
| "FindOne_elems k [] = None"
| "FindOne_elems k (j # js) =
     (case FindOne k j of Some v \<Rightarrow> Some v | None \<Rightarrow> FindOne_elems k js)"

text \<open>
  The spec's words, to compare with the search: a document contains a field named \<open>k\<close>
  at some nesting depth.
\<close>

fun contains_field :: "string \<Rightarrow> json \<Rightarrow> bool"
  and contains_field_fields :: "string \<Rightarrow> (string \<times> json) list \<Rightarrow> bool"
  and contains_field_elems :: "string \<Rightarrow> json list \<Rightarrow> bool" where
  "contains_field k (JObject fs) = contains_field_fields k fs"
| "contains_field k (JArray js) = contains_field_elems k js"
| "contains_field k JNull = False"
| "contains_field k (JBool b) = False"
| "contains_field k (JNumber n) = False"
| "contains_field k (JString s) = False"
| "contains_field_fields k [] = False"
| "contains_field_fields k (f # fs) =
     (fst f = k \<or> contains_field k (snd f) \<or> contains_field_fields k fs)"
| "contains_field_elems k [] = False"
| "contains_field_elems k (j # js) = (contains_field k j \<or> contains_field_elems k js)"

text \<open>\<open>tryDecompressResponse\<close> (node.go).\<close>

definition tryDecompressResponse :: "libs \<Rightarrow> Response \<Rightarrow> bytes \<Rightarrow> error + bytes" where
  "tryDecompressResponse L r b =
     (if Header_Get (Header r) ''Content-Encoding'' = ''gzip'' then
        (case gzip_NewReader L b of
           Inl err \<Rightarrow> Inr b
         | Inr ub \<Rightarrow> io_ReadAll ub)
      else if Header_Get (Header r) ''Content-Encoding'' = ''deflate'' then
        io_ReadAll (flate_NewReader L b)
      else Inr b)"

text \<open>
  The deferred function of \<open>ModifyResponse\<close>: it runs when the method returns, on the
  value the local variable \<open>statusCode\<close> has then.
\<close>

definition classify :: "int \<Rightarrow> ReverseProxyNode \<Rightarrow> ReverseProxyNode" where
  "classify statusCode node =
     (if statusCode \<ge> 200 \<and> statusCode < 300 then node\<lparr>Calls2XX := Calls2XX node + 1\<rparr>
      else if statusCode \<ge> 400 \<and> statusCode < 500 then node\<lparr>Calls4XX := Calls4XX node + 1\<rparr>
      else if statusCode \<ge> 500 \<and> statusCode < 600 then node\<lparr>Calls5XX := Calls5XX node + 1\<rparr>
      else node)"

text \<open>
  The middle of \<open>ModifyResponse\<close>, lines 45 to 57: the value of \<open>statusCode\<close> after the
  inspection of the buffered bytes \<open>b\<close>, and the lines logged.
\<close>

definition inspect :: "libs \<Rightarrow> ReverseProxyNode \<Rightarrow> Response \<Rightarrow> bytes \<Rightarrow> int \<times> entry list" where
  "inspect L node r b =
     (case tryDecompressResponse L r b of
        Inl err \<Rightarrow> (StatusCode r, [])
      | Inr ub \<Rightarrow>
          (case jsonquery_Parse L ub of
             Inr doc \<Rightarrow>
               (case FindOne ''error'' doc of
                  Some v \<Rightarrow>
                    (429, Warnf ''detect error from node: %s, content: %s''
                            [AString (URL node), AValue (Some v)])
                | None \<Rightarrow> (StatusCode r, []))
           | Inl err \<Rightarrow>
               (StatusCode r, Warnf ''parse response from node %s error: %s''
                                [AString (URL node), AError err])))"

text \<open>
  \<open>ModifyResponse\<close> (node.go): the error returned (\<open>None\<close> is Go's \<open>nil\<close>), the
  response and the node as the call leaves them, and the lines logged. The local
  \<open>statusCode\<close> is never written back to the response. Closing the upstream body
  (the deferred \<open>r.Body.Close()\<close>) changes nothing that the model keeps.
\<close>

record outcome =
  err :: "error option"
  resp :: Response
  node_after :: ReverseProxyNode
  logged :: "entry list"

definition ModifyResponse :: "libs \<Rightarrow> ReverseProxyNode \<Rightarrow> Response \<Rightarrow> outcome" where
  "ModifyResponse L node r =
     (let node1 = node\<lparr>Calls := Calls node + 1\<rparr>;
          statusCode = StatusCode r
      in case io_ReadAll (Body r) of
           Inl e \<Rightarrow>
             \<lparr>err = Some e, resp = r, node_after = classify statusCode node1, logged = []\<rparr>
         | Inr b \<Rightarrow>
             (let (statusCode', lines) = inspect L node1 r b;
                  r1 = r\<lparr>Body := io_NopCloser b\<rparr>;
                  r2 = r1\<lparr>ContentLength := int (length b)\<rparr>;
                  r3 = r2\<lparr>Header := Header_Set (Header r2) ''Content-Length'' (Itoa (length b))\<rparr>
              in \<lparr>err = None, resp = r3, node_after = classify statusCode' node1,
                   logged = lines\<rparr>))"

text \<open>
  The spec's words, to compare with the code: the final status of a response is 429 when
  its body was buffered, decoded and parsed and the document contains a field named
  \<open>error\<close>, and the upstream status otherwise.
\<close>

definition final_status :: "libs \<Rightarrow> Response \<Rightarrow> int" where
  "final_status L r =
     (case io_ReadAll (Body r) of
        Inl e \<Rightarrow> StatusCode r
      | Inr b \<Rightarrow>
          (case tryDecompressResponse L r b of
             Inl e \<Rightarrow> StatusCode r
           | Inr ub \<Rightarrow>
               (case jsonquery_Parse L ub of
                  Inl e \<Rightarrow> StatusCode r
                | Inr doc \<Rightarrow> if contains_field ''error'' doc then 429 else StatusCode r)))"

text \<open>A node that handles a sequence of responses, one after the other.\<close>

fun handle_all :: "libs \<Rightarrow> ReverseProxyNode \<Rightarrow> Response list \<Rightarrow> ReverseProxyNode" where
  "handle_all L node [] = node"
| "handle_all L node (r # rs) = handle_all L (node_after (ModifyResponse L node r)) rs"

text \<open>The counter invariant of the spec, on the unsigned values of the counters.\<close>

definition counters_ok :: "ReverseProxyNode \<Rightarrow> bool" where
  "counters_ok node =
     (unat (Calls2XX node) + unat (Calls4XX node) + unat (Calls5XX node) \<le> unat (Calls node))"

section \<open>Node selection\<close>

text \<open>
  main.go: the global slice \<open>ReverseProxyNodes\<close> and the atomic cursor \<open>nodesIndex\<close>.
  \<open>nextNode\<close> adds one to the cursor (an unsigned 64-bit addition, which wraps) and
  takes the new value modulo the length; Go panics on a zero divisor. The result is the
  index of the node returned, the registry and the debug line.
\<close>

record registry =
  ReverseProxyNodes :: "ReverseProxyNode list"
  nodesIndex :: "64 word"

definition nextNode :: "bool \<Rightarrow> registry \<Rightarrow> panic + (nat \<times> registry \<times> entry list)" where
  "nextNode debug g =
     (let nextIndex = nodesIndex g + 1;
          g' = g\<lparr>nodesIndex := nextIndex\<rparr>
      in if length (ReverseProxyNodes g) = 0 then Inl DivideByZero
         else (let nextIndex' = unat nextIndex mod length (ReverseProxyNodes g)
               in Inr (nextIndex', g',
                       Debugf debug ''round robin: next %d'' [AUint (of_nat nextIndex')])))"

text \<open>\<open>K\<close> successive calls of \<open>nextNode\<close>, with no other call in between.\<close>

fun selections :: "bool \<Rightarrow> nat \<Rightarrow> registry \<Rightarrow> panic + (nat list \<times> registry)" where
  "selections debug 0 g = Inr ([], g)"
| "selections debug (Suc k) g =
     (case nextNode debug g of
        Inl p \<Rightarrow> Inl p
      | Inr (i, g', lines) \<Rightarrow>
          (case selections debug k g' of
             Inl p \<Rightarrow> Inl p
           | Inr (is, g'') \<Rightarrow> Inr (i # is, g'')))"

text \<open>The registry as \<open>main\<close> builds it: one node for each address, the cursor at zero.\<close>

definition fresh_registry :: "string list \<Rightarrow> registry" where
  "fresh_registry urls = \<lparr>ReverseProxyNodes = map buildNode urls, nodesIndex = 0\<rparr>"

section \<open>Metrics reporting\<close>

text \<open>
  \<open>runPrintNodeMetrics\<close> (main.go). The interval is a \<open>time.Duration\<close>, a signed number
  of nanoseconds; \<open>time.NewTicker\<close> panics on an interval that is not positive. What the
  loop receives is a sequence of events: a tick of the ticker, with the nodes as they are
  at that moment, or the cancellation of the context. When the events end without a
  cancellation, the task is still waiting.
\<close>

datatype event = Tick "ReverseProxyNode list" | Done

datatype task_end = Returned | Waiting | Panicked panic

definition metrics_line :: "ReverseProxyNode \<Rightarrow> entry list" where
  "metrics_line node =
     Infof ''node %s: calls %d, 2xx %d, 4xx %d, 5xx %d''
       [AString (URL node), AUint (Calls node), AUint (Calls2XX node),
        AUint (Calls4XX node), AUint (Calls5XX node)]"

fun metrics_loop :: "event list \<Rightarrow> entry list \<times> task_end" where
  "metrics_loop [] = ([], Waiting)"
| "metrics_loop (Tick nodes # es) =
     (let (lines, e) = metrics_loop es
      in (Infof ''==============================metrics start==============================''
            []
          @ concat (map metrics_line nodes) @ lines, e))"
| "metrics_loop (Done # es) = ([], Returned)"

definition runPrintNodeMetrics :: "int \<Rightarrow> event list \<Rightarrow> entry list \<times> task_end" where
  "runPrintNodeMetrics interval es =
     (if interval = 0 then ([], Returned)
      else if interval < 0 then ([], Panicked NonPositiveTickerInterval)
      else metrics_loop es)"

section \<open>The health probe\<close>









section \<open>Example libraries and inputs\<close>

text \<open>
  A library instance for concrete runs. Its gzip reader accepts a ten-byte header that
  starts with the gzip magic number and the deflate method, and then fails on the
  payload; its deflate reader fails; its parser knows two documents.
\<close>

definition example_libs :: libs where
  \<open>example_libs =
     \<lparr>gzip_NewReader =
        (\<lambda>b. if 10 \<le> length b \<and> take 3 b = [CHR 0x1F, CHR 0x8B, CHR 0x08]
             then Inr (ReadCloser [] (Some (Error ''unexpected EOF'')))
             else Inl (Error ''gzip: invalid header'')),
      flate_NewReader =
        (\<lambda>b. ReadCloser [] (Some (Error ''flate: corrupt input before offset 1''))),
      jsonquery_Parse =
        (\<lambda>b. if b = ''{"error":"x"}'' then Inr (JObject [(''error'', JString ''x'')])
             else if b = ''{"result":"0x1"}'' then Inr (JObject [(''result'', JString ''0x1'')])
             else Inl (Error ''invalid character''))\<rparr>\<close>

definition example_response :: "int \<Rightarrow> string \<Rightarrow> bytes \<Rightarrow> Response" where
  "example_response status encoding b =
     \<lparr>StatusCode = status,
      Header = (if encoding = [] then Map.empty
                else [''Content-Encoding'' \<mapsto> [encoding]]),
      Body = ReadCloser b None,
      ContentLength = int (length b)\<rparr>"





section \<open>The search agrees with the spec's words\<close>

lemma contains_field_fields_iff:
  "contains_field_fields k fs = (k \<in> fst ` set fs \<or> (\<exists>f \<in> set fs. contains_field k (snd f)))"
  by (induction fs) auto

lemma FindOne_iff:
  "(FindOne k j \<noteq> None) = contains_field k j"
  "(FindOne_fields k fs \<noteq> None) = (\<exists>f \<in> set fs. contains_field k (snd f))"
  "(FindOne_elems k js \<noteq> None) = contains_field_elems k js"
proof (induction k j and k fs and k js rule: FindOne_FindOne_fields_FindOne_elems.induct)
  case (1 k fs)
  show ?case
  proof (cases "map_of fs k")
    case None
    then have "k \<notin> fst ` set fs" by (simp add: map_of_eq_None_iff)
    with None 1 show ?thesis by (simp add: contains_field_fields_iff)
  next
    case (Some v)
    then have "k \<in> fst ` set fs" by (metis map_of_eq_None_iff option.distinct(1))
    with Some show ?thesis by (simp add: contains_field_fields_iff)
  qed
qed (auto split: option.splits)

lemma FindOne_None_iff: "(FindOne k j = None) = (\<not> contains_field k j)"
  using FindOne_iff(1) [of k j] by blast

section \<open>What \<open>ModifyResponse\<close> does to the counters and to the response\<close>

lemma inspect_status:
  assumes "io_ReadAll (Body r) = Inr b"
  shows "fst (inspect L node r b) = final_status L r"
proof (cases "tryDecompressResponse L r b")
  case (Inl e)
  with assms show ?thesis by (simp add: inspect_def final_status_def)
next
  case ub: (Inr ub)
  show ?thesis
  proof (cases "jsonquery_Parse L ub")
    case (Inl e)
    with assms ub show ?thesis by (simp add: inspect_def final_status_def Warnf_def)
  next
    case doc: (Inr doc)
    show ?thesis
    proof (cases "FindOne ''error'' doc")
      case None
      then have "\<not> contains_field ''error'' doc" by (simp add: FindOne_None_iff)
      with assms ub doc None show ?thesis by (simp add: inspect_def final_status_def)
    next
      case (Some v)
      then have "contains_field ''error'' doc" using FindOne_iff(1) [of "''error''" doc] by simp
      with assms ub doc Some show ?thesis by (simp add: inspect_def final_status_def)
    qed
  qed
qed

lemma ModifyResponse_node_after:
  "node_after (ModifyResponse L node r) =
     classify (final_status L r) (node\<lparr>Calls := Calls node + 1\<rparr>)"
proof (cases "io_ReadAll (Body r)")
  case (Inl e)
  then show ?thesis by (simp add: ModifyResponse_def final_status_def)
next
  case (Inr b)
  obtain s lines where i: "inspect L (node\<lparr>Calls := Calls node + 1\<rparr>) r b = (s, lines)"
    by (cases "inspect L (node\<lparr>Calls := Calls node + 1\<rparr>) r b")
  with inspect_status [OF Inr, of L "node\<lparr>Calls := Calls node + 1\<rparr>"]
  have "s = final_status L r" by simp
  with Inr i show ?thesis by (simp add: ModifyResponse_def)
qed

lemma ModifyResponse_StatusCode:
  "StatusCode (resp (ModifyResponse L node r)) = StatusCode r"
  by (simp add: ModifyResponse_def Let_def case_prod_beta split: sum.splits)

lemma ModifyResponse_buffered:
  "io_ReadAll (Body r) = Inr b \<Longrightarrow>
   err (ModifyResponse L node r) = None \<and>
   Body (resp (ModifyResponse L node r)) = io_NopCloser b \<and>
   ContentLength (resp (ModifyResponse L node r)) = int (length b) \<and>
   Header (resp (ModifyResponse L node r)) =
     Header_Set (Header r) ''Content-Length'' (Itoa (length b)) \<and>
   logged (ModifyResponse L node r) = snd (inspect L (node\<lparr>Calls := Calls node + 1\<rparr>) r b)"
  by (simp add: ModifyResponse_def Let_def case_prod_beta)

text \<open>
  C4: the counters are classified by the final status, that is, the upstream status or 429
  after an override: \<open>Calls\<close> goes up by one, and of the three class counters the one
  whose range holds the final status goes up by one, the others stay; outside the three
  ranges none moves. The additions are those of unsigned 64-bit integers.
\<close>

theorem counters_follow_final_status:
  "let s = final_status L r; n' = node_after (ModifyResponse L node r)
   in Calls n' = Calls node + 1 \<and>
      Calls2XX n' = Calls2XX node + (if 200 \<le> s \<and> s < 300 then 1 else 0) \<and>
      Calls4XX n' = Calls4XX node + (if 400 \<le> s \<and> s < 500 then 1 else 0) \<and>
      Calls5XX n' = Calls5XX node + (if 500 \<le> s \<and> s < 600 then 1 else 0)"
  by (simp add: ModifyResponse_node_after classify_def Let_def)

text \<open>
  C10: when reading the upstream body fails, \<open>ModifyResponse\<close> returns that error,
  leaves the response as it is and logs nothing, and the node has \<open>Calls\<close> one higher
  and the class counter of the upstream status one higher.
\<close>

theorem read_failure_still_counts:
  "io_ReadAll (Body r) = Inl e \<Longrightarrow>
   ModifyResponse L node r =
     \<lparr>err = Some e, resp = r,
      node_after = classify (StatusCode r) (node\<lparr>Calls := Calls node + 1\<rparr>),
      logged = []\<rparr>"
  by (simp add: ModifyResponse_def)

text \<open>
  C6: for a response whose body was buffered and whose decoding fails, or whose parsing
  fails, or whose document contains no field named \<open>error\<close>, the call returns no error,
  the status code of the response is the upstream one, reading the body gives the raw
  bytes again, and the final status is the upstream one.
\<close>

theorem unmodified_without_error_field:
  assumes "io_ReadAll (Body r) = Inr b"
    and "case tryDecompressResponse L r b of
           Inl e \<Rightarrow> True
         | Inr ub \<Rightarrow>
             (case jsonquery_Parse L ub of
                Inl e \<Rightarrow> True
              | Inr doc \<Rightarrow> \<not> contains_field ''error'' doc)"
  shows "err (ModifyResponse L node r) = None \<and>
         StatusCode (resp (ModifyResponse L node r)) = StatusCode r \<and>
         io_ReadAll (Body (resp (ModifyResponse L node r))) = Inr b \<and>
         final_status L r = StatusCode r"
proof -
  from assms have "final_status L r = StatusCode r"
    by (simp add: final_status_def split: sum.splits)
  with ModifyResponse_buffered [OF assms(1), of L node] show ?thesis
    by (simp add: ModifyResponse_StatusCode io_NopCloser_def)
qed

text \<open>
  C2, as amended: for a response with \<open>Content-Encoding: deflate\<close> whose body fails to
  decode, \<open>tryDecompressResponse\<close> returns the error, the search and the override are
  skipped, nothing is logged, \<open>ModifyResponse\<close> returns no error, status and raw bytes
  are those of the upstream, and the counters are still updated by the upstream status.
\<close>

theorem deflate_failure_skips_inspection:
  assumes "Header_Get (Header r) ''Content-Encoding'' = ''deflate''"
    and "io_ReadAll (Body r) = Inr b"
    and "io_ReadAll (flate_NewReader L b) = Inl e"
  shows "tryDecompressResponse L r b = Inl e \<and>
         err (ModifyResponse L node r) = None \<and>
         logged (ModifyResponse L node r) = [] \<and>
         StatusCode (resp (ModifyResponse L node r)) = StatusCode r \<and>
         io_ReadAll (Body (resp (ModifyResponse L node r))) = Inr b \<and>
         node_after (ModifyResponse L node r) =
           classify (StatusCode r) (node\<lparr>Calls := Calls node + 1\<rparr>)"
proof -
  from assms(1,3) have d: "tryDecompressResponse L r b = Inl e"
    by (simp add: tryDecompressResponse_def)
  with assms(2) have "final_status L r = StatusCode r"
    by (simp add: final_status_def)
  moreover from d have "inspect L n r b = (StatusCode r, [])" for n
    by (simp add: inspect_def)
  ultimately show ?thesis
    using d ModifyResponse_buffered [OF assms(2), of L node]
    by (simp add: ModifyResponse_StatusCode ModifyResponse_node_after io_NopCloser_def)
qed




section \<open>Concrete runs\<close>

lemma example_parse_error_doc:
  \<open>jsonquery_Parse example_libs ''{"error":"x"}'' = Inr (JObject [(''error'', JString ''x'')])\<close>
  by (simp add: example_libs_def)

lemma example_parse_result_doc:
  \<open>jsonquery_Parse example_libs ''{"result":"0x1"}'' = Inr (JObject [(''result'', JString ''0x1'')])\<close>
  by (simp add: example_libs_def)

lemma example_parse_other:
  \<open>jsonquery_Parse example_libs ''zz'' = Inl (Error ''invalid character'')\<close>
  by (simp add: example_libs_def)

text \<open>
  C1: a response of status 200 with no encoding and body \<open>{"error":"x"}\<close>. The
  document contains the field, the call returns no error, and the status code of the
  response is still 200, not 429.
\<close>

theorem error_body_keeps_upstream_status:
  \<open>jsonquery_Parse example_libs ''{"error":"x"}'' = Inr (JObject [(''error'', JString ''x'')]) \<and>
   contains_field ''error'' (JObject [(''error'', JString ''x'')]) \<and>
   err (ModifyResponse example_libs (buildNode ''http://n1'')
          (example_response 200 [] ''{"error":"x"}'')) = None \<and>
   StatusCode (resp (ModifyResponse example_libs (buildNode ''http://n1'')
                       (example_response 200 [] ''{"error":"x"}''))) = 200\<close>
  by (simp add: example_parse_error_doc ModifyResponse_StatusCode ModifyResponse_buffered
        example_response_def)

text \<open>C4 on that response: the final status is 429 and the 4xx counter is the one that moves.\<close>

theorem counters_follow_final_status_witness:
  \<open>final_status example_libs (example_response 200 [] ''{"error":"x"}'') = 429 \<and>
   Calls (node_after (ModifyResponse example_libs (buildNode ''http://n1'')
                        (example_response 200 [] ''{"error":"x"}''))) = 1 \<and>
   Calls2XX (node_after (ModifyResponse example_libs (buildNode ''http://n1'')
                           (example_response 200 [] ''{"error":"x"}''))) = 0 \<and>
   Calls4XX (node_after (ModifyResponse example_libs (buildNode ''http://n1'')
                           (example_response 200 [] ''{"error":"x"}''))) = 1 \<and>
   Calls5XX (node_after (ModifyResponse example_libs (buildNode ''http://n1'')
                           (example_response 200 [] ''{"error":"x"}''))) = 0\<close>
proof -
  have s: \<open>final_status example_libs (example_response 200 [] ''{"error":"x"}'') = 429\<close>
    by (simp add: final_status_def example_response_def tryDecompressResponse_def
          Header_Get_def example_parse_error_doc)
  show ?thesis
    using counters_follow_final_status
      [of example_libs \<open>example_response 200 [] ''{"error":"x"}''\<close> \<open>buildNode ''http://n1''\<close>]
    by (simp add: s Let_def buildNode_def)
qed

text \<open>C10 on a response of status 503 whose body breaks off.\<close>

theorem read_failure_still_counts_witness:
  \<open>ModifyResponse example_libs (buildNode ''http://n1'')
     \<lparr>StatusCode = 503, Header = Map.empty,
      Body = ReadCloser ''{"res'' (Some (Error ''unexpected EOF'')), ContentLength = 20\<rparr> =
   \<lparr>err = Some (Error ''unexpected EOF''),
    resp = \<lparr>StatusCode = 503, Header = Map.empty,
            Body = ReadCloser ''{"res'' (Some (Error ''unexpected EOF'')), ContentLength = 20\<rparr>,
    node_after = \<lparr>URL = ''http://n1'', Calls = 1, Calls2XX = 0, Calls4XX = 0, Calls5XX = 1\<rparr>,
    logged = []\<rparr>\<close>
  using read_failure_still_counts
    [of \<open>\<lparr>StatusCode = 503, Header = Map.empty,
           Body = ReadCloser ''{"res'' (Some (Error ''unexpected EOF'')), ContentLength = 20\<rparr>\<close>
        \<open>Error ''unexpected EOF''\<close> example_libs \<open>buildNode ''http://n1''\<close>]
  by (simp add: classify_def buildNode_def)


lemma example_plain_decompress:
  "tryDecompressResponse L (example_response status [] b) b = Inr b"
  by (simp add: tryDecompressResponse_def example_response_def Header_Get_def)

lemma example_encoding:
  "enc \<noteq> [] \<Longrightarrow> Header_Get (Header (example_response status enc b)) ''Content-Encoding'' = enc"
  by (simp add: example_response_def Header_Get_def)

lemma example_body: "io_ReadAll (Body (example_response status enc b)) = Inr b"
  by (simp add: example_response_def)

lemma example_status: "StatusCode (example_response status enc b) = status"
  by (simp add: example_response_def)

lemma example_deflate_fails:
  "io_ReadAll (flate_NewReader example_libs b) =
     Inl (Error ''flate: corrupt input before offset 1'')"
  by (simp add: example_libs_def)



text \<open>
  C6 on three responses: a document without the field, a body that does not parse, and a
  deflate body that does not decode.
\<close>

theorem unmodified_without_error_field_witness:
  \<open>(err (ModifyResponse example_libs (buildNode ''http://n1'')
           (example_response 200 [] ''{"result":"0x1"}'')) = None \<and>
    StatusCode (resp (ModifyResponse example_libs (buildNode ''http://n1'')
                        (example_response 200 [] ''{"result":"0x1"}''))) = 200 \<and>
    io_ReadAll (Body (resp (ModifyResponse example_libs (buildNode ''http://n1'')
                              (example_response 200 [] ''{"result":"0x1"}'')))) =
      Inr ''{"result":"0x1"}'') \<and>
   (err (ModifyResponse example_libs (buildNode ''http://n1'')
           (example_response 404 [] ''zz'')) = None \<and>
    StatusCode (resp (ModifyResponse example_libs (buildNode ''http://n1'')
                        (example_response 404 [] ''zz''))) = 404 \<and>
    io_ReadAll (Body (resp (ModifyResponse example_libs (buildNode ''http://n1'')
                              (example_response 404 [] ''zz'')))) = Inr ''zz'') \<and>
   (err (ModifyResponse example_libs (buildNode ''http://n1'')
           (example_response 200 ''deflate'' ''x'')) = None \<and>
    StatusCode (resp (ModifyResponse example_libs (buildNode ''http://n1'')
                        (example_response 200 ''deflate'' ''x''))) = 200 \<and>
    io_ReadAll (Body (resp (ModifyResponse example_libs (buildNode ''http://n1'')
                              (example_response 200 ''deflate'' ''x'')))) = Inr ''x'')\<close>
proof -
  have h1: \<open>case tryDecompressResponse example_libs
                  (example_response 200 [] ''{"result":"0x1"}'') ''{"result":"0x1"}'' of
             Inl e \<Rightarrow> True
           | Inr ub \<Rightarrow>
               (case jsonquery_Parse example_libs ub of
                  Inl e \<Rightarrow> True
                | Inr doc \<Rightarrow> \<not> contains_field ''error'' doc)\<close>
    by (simp add: example_plain_decompress example_parse_result_doc)
  have h2: \<open>case tryDecompressResponse example_libs (example_response 404 [] ''zz'') ''zz'' of
             Inl e \<Rightarrow> True
           | Inr ub \<Rightarrow>
               (case jsonquery_Parse example_libs ub of
                  Inl e \<Rightarrow> True
                | Inr doc \<Rightarrow> \<not> contains_field ''error'' doc)\<close>
    by (simp add: example_plain_decompress example_parse_other)
  have h3: \<open>case tryDecompressResponse example_libs
                  (example_response 200 ''deflate'' ''x'') ''x'' of
             Inl e \<Rightarrow> True
           | Inr ub \<Rightarrow>
               (case jsonquery_Parse example_libs ub of
                  Inl e \<Rightarrow> True
                | Inr doc \<Rightarrow> \<not> contains_field ''error'' doc)\<close>
    by (simp add: tryDecompressResponse_def example_encoding example_deflate_fails)
  show ?thesis
    using unmodified_without_error_field [OF example_body h1, of \<open>buildNode ''http://n1''\<close>]
      unmodified_without_error_field [OF example_body h2, of \<open>buildNode ''http://n1''\<close>]
      unmodified_without_error_field [OF example_body h3, of \<open>buildNode ''http://n1''\<close>]
    by (simp add: example_status)
qed

text \<open>C2, as amended, on a two-byte body sent as deflate.\<close>

theorem deflate_failure_skips_inspection_witness:
  \<open>tryDecompressResponse example_libs (example_response 200 ''deflate'' [CHR 0x78, CHR 0x9C])
      [CHR 0x78, CHR 0x9C] = Inl (Error ''flate: corrupt input before offset 1'') \<and>
   err (ModifyResponse example_libs (buildNode ''http://n1'')
          (example_response 200 ''deflate'' [CHR 0x78, CHR 0x9C])) = None \<and>
   logged (ModifyResponse example_libs (buildNode ''http://n1'')
             (example_response 200 ''deflate'' [CHR 0x78, CHR 0x9C])) = [] \<and>
   StatusCode (resp (ModifyResponse example_libs (buildNode ''http://n1'')
                       (example_response 200 ''deflate'' [CHR 0x78, CHR 0x9C]))) = 200 \<and>
   io_ReadAll (Body (resp (ModifyResponse example_libs (buildNode ''http://n1'')
                             (example_response 200 ''deflate'' [CHR 0x78, CHR 0x9C])))) =
     Inr [CHR 0x78, CHR 0x9C] \<and>
   node_after (ModifyResponse example_libs (buildNode ''http://n1'')
                 (example_response 200 ''deflate'' [CHR 0x78, CHR 0x9C])) =
     \<lparr>URL = ''http://n1'', Calls = 1, Calls2XX = 1, Calls4XX = 0, Calls5XX = 0\<rparr>\<close>
proof -
  have enc: "Header_Get (Header (example_response 200 ''deflate'' [CHR 0x78, CHR 0x9C]))
               ''Content-Encoding'' = ''deflate''"
    by (simp add: example_encoding)
  show ?thesis
    using deflate_failure_skips_inspection
      [OF enc example_body example_deflate_fails, of \<open>buildNode ''http://n1''\<close>]
    by (simp add: example_status classify_def buildNode_def)
qed

text \<open>
  C2 as stated fails there: the failed decoding logs no line, the call returns no error,
  and the 2xx counter is incremented, so the classification is not skipped.
\<close>

theorem deflate_failure_not_logged_and_counted:
  \<open>err (ModifyResponse example_libs (buildNode ''http://n1'')
          (example_response 200 ''deflate'' [CHR 0x78, CHR 0x9C])) = None \<and>
   logged (ModifyResponse example_libs (buildNode ''http://n1'')
             (example_response 200 ''deflate'' [CHR 0x78, CHR 0x9C])) = [] \<and>
   Calls2XX (node_after (ModifyResponse example_libs (buildNode ''http://n1'')
                           (example_response 200 ''deflate'' [CHR 0x78, CHR 0x9C]))) = 1\<close>
proof -
  have d: "tryDecompressResponse example_libs
             (example_response 200 ''deflate'' [CHR 0x78, CHR 0x9C]) [CHR 0x78, CHR 0x9C] =
           Inl (Error ''flate: corrupt input before offset 1'')"
    by (simp add: tryDecompressResponse_def example_encoding example_deflate_fails)
  then have "final_status example_libs (example_response 200 ''deflate'' [CHR 0x78, CHR 0x9C]) = 200"
    by (simp add: final_status_def example_body example_status)
  moreover from d have "inspect example_libs n
      (example_response 200 ''deflate'' [CHR 0x78, CHR 0x9C]) [CHR 0x78, CHR 0x9C] = (200, [])" for n
    by (simp add: inspect_def example_status)
  ultimately show ?thesis
    using ModifyResponse_buffered [OF example_body, of example_libs \<open>buildNode ''http://n1''\<close>
        200 \<open>''deflate''\<close> \<open>[CHR 0x78, CHR 0x9C]\<close>]
    by (simp add: ModifyResponse_node_after classify_def buildNode_def)
qed




section \<open>The counter invariant\<close>

lemma handle_all_counts:
  "handle_all L node rs =
     node\<lparr>Calls := Calls node + of_nat (length rs),
          Calls2XX := Calls2XX node +
            of_nat (length (filter (\<lambda>r. 200 \<le> final_status L r \<and> final_status L r < 300) rs)),
          Calls4XX := Calls4XX node +
            of_nat (length (filter (\<lambda>r. 400 \<le> final_status L r \<and> final_status L r < 500) rs)),
          Calls5XX := Calls5XX node +
            of_nat (length (filter (\<lambda>r. 500 \<le> final_status L r \<and> final_status L r < 600) rs))\<rparr>"
proof (induction rs arbitrary: node)
  case Nil
  show ?case by simp
next
  case (Cons r rs)
  show ?case
    by (simp add: Cons.IH ModifyResponse_node_after classify_def)
qed

lemma class_counts_le:
  fixes f :: "'a \<Rightarrow> int"
  shows "length (filter (\<lambda>r. 200 \<le> f r \<and> f r < 300) rs) +
         length (filter (\<lambda>r. 400 \<le> f r \<and> f r < 500) rs) +
         length (filter (\<lambda>r. 500 \<le> f r \<and> f r < 600) rs) \<le> length rs"
  by (induction rs) auto

lemma unat_of_nat_64: "n < 2 ^ 64 \<Longrightarrow> unat (of_nat n :: 64 word) = n"
  by (simp add: unat_of_nat)

text \<open>
  C7, as amended: a node built by \<open>buildNode\<close> that has handled fewer than \<open>2 ^ 64\<close>
  responses satisfies \<open>total \<ge> class2xx + class4xx + class5xx\<close>, and its total is the
  number of responses; a response whose final status is outside the three ranges changes
  only the total.
\<close>

theorem counters_ok_below_wrap:
  assumes "length rs < 2 ^ 64"
  shows "counters_ok (handle_all L (buildNode u) rs) \<and>
         unat (Calls (handle_all L (buildNode u) rs)) = length rs \<and>
         (final_status L r \<notin> {200..<300} \<union> {400..<500} \<union> {500..<600} \<longrightarrow>
            node_after (ModifyResponse L node r) = node\<lparr>Calls := Calls node + 1\<rparr>)"
proof -
  let ?c2 = "length (filter (\<lambda>r. 200 \<le> final_status L r \<and> final_status L r < 300) rs)"
  let ?c4 = "length (filter (\<lambda>r. 400 \<le> final_status L r \<and> final_status L r < 500) rs)"
  let ?c5 = "length (filter (\<lambda>r. 500 \<le> final_status L r \<and> final_status L r < 600) rs)"
  have le: "?c2 + ?c4 + ?c5 \<le> length rs"
    by (rule class_counts_le)
  with assms have b: "?c2 < 2 ^ 64" "?c4 < 2 ^ 64" "?c5 < 2 ^ 64"
    by linarith+
  have "counters_ok (handle_all L (buildNode u) rs)"
    using le by (simp add: counters_ok_def handle_all_counts buildNode_def
                   unat_of_nat_64 [OF assms] unat_of_nat_64 [OF b(1)]
                   unat_of_nat_64 [OF b(2)] unat_of_nat_64 [OF b(3)])
  moreover have "unat (Calls (handle_all L (buildNode u) rs)) = length rs"
    by (simp add: handle_all_counts buildNode_def unat_of_nat_64 [OF assms])
  moreover have "final_status L r \<notin> {200..<300} \<union> {400..<500} \<union> {500..<600} \<longrightarrow>
            node_after (ModifyResponse L node r) = node\<lparr>Calls := Calls node + 1\<rparr>"
    by (simp add: ModifyResponse_node_after classify_def)
  ultimately show ?thesis by blast
qed

lemma example_final_status_plain:
  \<open>final_status example_libs (example_response status [] ''{"result":"0x1"}'') = status\<close>
  by (simp add: final_status_def example_body example_plain_decompress
        example_parse_result_doc example_status)

text \<open>C7, as amended, on a response of status 200 followed by one of status 302.\<close>

theorem counters_ok_below_wrap_witness:
  \<open>counters_ok (handle_all example_libs (buildNode ''http://n1'')
       [example_response 200 [] ''{"result":"0x1"}'', example_response 302 [] ''{"result":"0x1"}'']) \<and>
   unat (Calls (handle_all example_libs (buildNode ''http://n1'')
       [example_response 200 [] ''{"result":"0x1"}'', example_response 302 [] ''{"result":"0x1"}''])) = 2 \<and>
   node_after (ModifyResponse example_libs (buildNode ''http://n1'')
                 (example_response 302 [] ''{"result":"0x1"}'')) =
     \<lparr>URL = ''http://n1'', Calls = 1, Calls2XX = 0, Calls4XX = 0, Calls5XX = 0\<rparr>\<close>
proof -
  have h: \<open>length [example_response 200 [] ''{"result":"0x1"}'',
                   example_response 302 [] ''{"result":"0x1"}''] < 2 ^ 64\<close>
    by simp
  show ?thesis
    using counters_ok_below_wrap [OF h, of example_libs \<open>''http://n1''\<close>
        \<open>example_response 302 [] ''{"result":"0x1"}''\<close> \<open>buildNode ''http://n1''\<close>]
    by (simp add: example_final_status_plain buildNode_def)
qed

text \<open>
  C7 as stated fails when the total wraps: after one response of status 302 and
  \<open>2 ^ 64 - 1\<close> of status 200 the total is 0 and the 2xx counter is \<open>2 ^ 64 - 1\<close>.
\<close>

theorem counters_wrap_breaks_invariant:
  \<open>\<not> counters_ok (handle_all example_libs (buildNode ''http://n1'')
       (example_response 302 [] ''{"result":"0x1"}'' #
        replicate (2 ^ 64 - 1) (example_response 200 [] ''{"result":"0x1"}'')))\<close>
proof -
  let ?n = \<open>handle_all example_libs (buildNode ''http://n1'')
       (example_response 302 [] ''{"result":"0x1"}'' #
        replicate (2 ^ 64 - 1) (example_response 200 [] ''{"result":"0x1"}''))\<close>
  have c: "Calls ?n = 0"
    by (simp add: handle_all_counts buildNode_def)
  have c2: "Calls2XX ?n = 18446744073709551615"
    by (simp add: handle_all_counts buildNode_def example_final_status_plain)
  show ?thesis
    unfolding counters_ok_def c c2 by simp
qed


section \<open>Round robin\<close>

lemma nextNode_nonempty:
  "ReverseProxyNodes g \<noteq> [] \<Longrightarrow>
   nextNode debug g =
     Inr (unat (nodesIndex g + 1) mod length (ReverseProxyNodes g),
          g\<lparr>nodesIndex := nodesIndex g + 1\<rparr>,
          Debugf debug ''round robin: next %d''
            [AUint (of_nat (unat (nodesIndex g + 1) mod length (ReverseProxyNodes g)))])"
  by (simp add: nextNode_def Let_def)

lemma selections_word:
  "ReverseProxyNodes g \<noteq> [] \<Longrightarrow>
   selections debug K g =
     Inr (map (\<lambda>i. unat (nodesIndex g + of_nat i) mod length (ReverseProxyNodes g)) [1..<Suc K],
          g\<lparr>nodesIndex := nodesIndex g + of_nat K\<rparr>)"
proof (induction K arbitrary: g)
  case 0
  show ?case by simp
next
  case (Suc K)
  let ?g = "g\<lparr>nodesIndex := nodesIndex g + 1\<rparr>"
  from Suc.prems have ne: "ReverseProxyNodes ?g \<noteq> []" by simp
  have step: "nodesIndex g + 1 + of_nat i = nodesIndex g + of_nat (Suc i)" for i
    by simp
  have "[1..<Suc (Suc K)] = 1 # map Suc [1..<Suc K]"
    by (simp only: map_Suc_upt) (simp add: upt_rec)
  then have shift: "map (\<lambda>i. unat (nodesIndex g + of_nat i) mod length (ReverseProxyNodes g))
                  [1..<Suc (Suc K)] =
               unat (nodesIndex g + 1) mod length (ReverseProxyNodes g) #
               map (\<lambda>i. unat (nodesIndex g + 1 + of_nat i) mod length (ReverseProxyNodes g))
                  [1..<Suc K]"
    by (simp only: list.map map_map comp_def step) simp
  have cur: "nodesIndex g + 1 + of_nat K = nodesIndex g + of_nat (Suc K)"
    by simp
  show ?case
    unfolding shift
    by (simp add: nextNode_nonempty [OF Suc.prems] Suc.IH [OF ne] del: upt_Suc of_nat_Suc)
       (simp add: add.assoc)
qed

lemma unat_cursor_add: "unat (c + of_nat i :: 64 word) = (unat c + i) mod 2 ^ 64"
  by (simp add: unat_word_ariths unat_of_nat mod_add_right_eq)

text \<open>
  C3, as amended: on a non-empty list of length \<open>N\<close>, \<open>K\<close> successive selections from
  the cursor value \<open>c\<close> return the indices \<open>((c + i) mod 2 ^ 64) mod N\<close> for
  \<open>i = 1..K\<close>, which is \<open>(c + i) mod N\<close> as long as \<open>c + K < 2 ^ 64\<close>; from a
  fresh registry with at least two nodes the first selection returns index 1.
\<close>

theorem round_robin_indices:
  assumes "ReverseProxyNodes g \<noteq> []"
  shows "selections debug K g =
           Inr (map (\<lambda>i. ((unat (nodesIndex g) + i) mod 2 ^ 64) mod length (ReverseProxyNodes g))
                  [1..<Suc K],
                g\<lparr>nodesIndex := nodesIndex g + of_nat K\<rparr>) \<and>
         (unat (nodesIndex g) + K < 2 ^ 64 \<longrightarrow>
            selections debug K g =
              Inr (map (\<lambda>i. (unat (nodesIndex g) + i) mod length (ReverseProxyNodes g)) [1..<Suc K],
                   g\<lparr>nodesIndex := nodesIndex g + of_nat K\<rparr>)) \<and>
         (nodesIndex g = 0 \<and> 2 \<le> length (ReverseProxyNodes g) \<longrightarrow>
            map_sum id fst (selections debug 1 g) = Inr [1])"
proof -
  have a: "selections debug K g =
           Inr (map (\<lambda>i. ((unat (nodesIndex g) + i) mod 2 ^ 64) mod length (ReverseProxyNodes g))
                  [1..<Suc K],
                g\<lparr>nodesIndex := nodesIndex g + of_nat K\<rparr>)"
    by (simp add: selections_word [OF assms] unat_cursor_add)
  have b: "map (\<lambda>i. ((unat (nodesIndex g) + i) mod 2 ^ 64) mod length (ReverseProxyNodes g))
             [1..<Suc K] =
           map (\<lambda>i. (unat (nodesIndex g) + i) mod length (ReverseProxyNodes g)) [1..<Suc K]"
    if "unat (nodesIndex g) + K < 2 ^ 64"
  proof (rule map_cong [OF refl])
    fix i assume "i \<in> set [1..<Suc K]"
    with that have "unat (nodesIndex g) + i < 2 ^ 64" by auto
    then show "((unat (nodesIndex g) + i) mod 2 ^ 64) mod length (ReverseProxyNodes g) =
               (unat (nodesIndex g) + i) mod length (ReverseProxyNodes g)"
      by simp
  qed
  have c: "map_sum id fst (selections debug 1 g) = Inr [1]"
    if "nodesIndex g = 0 \<and> 2 \<le> length (ReverseProxyNodes g)"
    using that by (simp add: selections_word [OF assms])
  from a b c show ?thesis by simp
qed

text \<open>C3, as amended, on five selections from a fresh registry of three nodes.\<close>

theorem round_robin_indices_witness:
  "selections False 5 (fresh_registry [''http://a'', ''http://b'', ''http://c'']) =
     Inr ([1, 2, 0, 1, 2],
          (fresh_registry [''http://a'', ''http://b'', ''http://c''])\<lparr>nodesIndex := 5\<rparr>) \<and>
   map_sum id fst (selections False 1 (fresh_registry [''http://a'', ''http://b'', ''http://c''])) =
     Inr [1]"
proof -
  have h: "ReverseProxyNodes (fresh_registry [''http://a'', ''http://b'', ''http://c'']) \<noteq> []"
    by (simp add: fresh_registry_def)
  have u: "[Suc 0..<6] = [1, 2, 3, 4, 5]"
    by code_simp
  show ?thesis
    using round_robin_indices [OF h, of False 5]
    by (simp add: fresh_registry_def u)
qed

text \<open>
  C3 as stated fails twice: a fresh registry of one node returns index 0 at the first
  selection; and from the cursor value \<open>2 ^ 64 - 1\<close> a registry of three nodes returns
  index 0, where \<open>(c + 1) mod 3\<close> is 1.
\<close>

theorem round_robin_first_index_zero:
  "map_sum id fst (selections False 1 (fresh_registry [''http://a''])) = Inr [0] \<and>
   map_sum id fst
     (selections False 1
        \<lparr>ReverseProxyNodes = map buildNode [''http://a'', ''http://b'', ''http://c''],
         nodesIndex = 18446744073709551615\<rparr>) = Inr [0] \<and>
   (18446744073709551615 + 1) mod 3 = (1 :: nat)"
  by (simp add: fresh_registry_def nextNode_def)

section \<open>Metrics reporting\<close>

text \<open>
  C9: with a metrics interval of zero \<open>runPrintNodeMetrics\<close> returns at once, whatever
  ticks and cancellations would come, and logs no line.
\<close>

theorem metrics_disabled_at_zero:
  "runPrintNodeMetrics 0 es = ([], Returned)"
  by (simp add: runPrintNodeMetrics_def)

lemma metrics_tick_example:
  "runPrintNodeMetrics 300000000000 [Tick [buildNode ''http://n1''], Done] =
     ([Entry INFO ''==============================metrics start==============================''
         [],
       Entry INFO ''node %s: calls %d, 2xx %d, 4xx %d, 5xx %d''
         [AString ''http://n1'', AUint 0, AUint 0, AUint 0, AUint 0]],
      Returned)"
  by (simp add: runPrintNodeMetrics_def metrics_line_def Infof_def buildNode_def)


section \<open>The health probe\<close>




end
